theory Spec2Isabelle
  imports Main "HOL-Library.Sublist"
begin

section \<open>Scheduled announcements (cogs/commands/announce.py)\<close>

text \<open>
  A shallow embedding of the announcement cog: the table of announcements, the
  commands \<open>add\<close>, \<open>list\<close>, \<open>cancel\<close>, \<open>check\<close> and \<open>mention\<close>, the preview menu
  and the background task \<open>announcement_check\<close>.

  Times are integers (a \<open>datetime\<close> is ordered like its position on the clock).
  A Python exception is a value of \<open>error\<close>; a coroutine that mutates the session
  and the chat returns the new \<open>world\<close> together with the exception it raised, if
  any, since what was committed or sent before a raise stays committed or sent.
\<close>

subsection \<open>Data model\<close>

datatype error =
    AttributeError
  | MissingPermissions
  | SQLAlchemyError
  | OtherError nat

text \<open>The row of the \<open>Announcement\<close> model, with the columns the cog sets.\<close>

record announcement =
  ann_id :: nat
  user_id :: nat
  announcement_content :: string
  trigger_at :: int
  triggered :: bool
  playback_channel_id :: nat
  irc_name :: "string option"

record user =
  user_name :: string
  avatar_url :: string
  user_mention :: string

record webhook =
  wh_name :: string
  wh_id :: nat

record role =
  role_name :: string
  role_mention :: string

datatype mention_policy = Default_mentions | No_mentions | All_mentions

text \<open>The arguments of one call of \<open>generate_announcement\<close>.\<close>

record gen_args =
  g_channel :: "nat option"
  g_message :: string
  g_webhook :: "webhook option"
  g_name :: string
  g_avatar :: "string option"
  g_mentions :: mention_policy

text \<open>
  What the code does to the outside, in order. \<open>Mark_triggered i\<close> is the
  assignment \<open>a.triggered = True\<close> on the row with id \<open>i\<close>.
\<close>

datatype event =
    Send mention_policy string
  | Delete nat
  | Mark_triggered nat
  | Commit
  | Rollback
  | Log_exception error
  | Generate gen_args
  | Process_commands nat
  | Sleep nat

text \<open>
  The reactions the menu offers: the check mark, the pencil and the cross.
\<close>

datatype reaction = Tick | Pencil | Cross

datatype outcome = Reacted reaction | Timed_out

text \<open>
  The session and the chat: the committed rows of the table in the order a query
  returns them, the id the store gives the next row, the messages that exist
  (by handle), the next message handle, and the trace of effects.
\<close>

record world =
  rows :: "announcement list"
  next_id :: nat
  live :: "nat list"
  fresh :: nat
  trace :: "event list"

text \<open>
  The bot, the configuration and the helpers of other modules that the cog calls:
  each is a parameter. \<open>user_uid\<close> follows the relationship \<open>a.user\<close> from a
  \<open>user_id\<close> (\<open>None\<close> when there is no such user); \<open>commit_fails\<close> says for which
  table contents \<open>db_session.commit()\<close> raises; \<open>generate\<close> is
  \<open>generate_announcement\<close>: the number of messages it posts, or what it raises.
\<close>

record env =
  impersonate :: bool
  search_interval :: nat
  bot_user :: user
  get_channel :: "nat \<Rightarrow> nat option"
  get_user :: "nat \<Rightarrow> user option"
  user_uid :: "nat \<Rightarrow> nat option"
  channel_webhooks :: "nat \<Rightarrow> error + webhook list"
  create_webhook :: "nat \<Rightarrow> string \<Rightarrow> error + webhook"
  generate :: "gen_args \<Rightarrow> error + nat"
  commit_fails :: "announcement list \<Rightarrow> bool"
  timestamp_str :: "int \<Rightarrow> string"
  precisedelta :: "nat \<Rightarrow> string"
  split_into_messages :: "string list \<Rightarrow> string list"

text \<open>The invocation context of a command.\<close>

record ctx =
  ctx_channel :: nat
  ctx_author :: user
  ctx_message_id :: nat
  ctx_is_irc_bot :: bool
  ctx_name_string :: string
  ctx_database_user :: "nat option"

subsection \<open>Strings\<close>

definition newline :: string where
  "newline = [CHR 0x0A]"

text \<open>Python's \<open>sep.join(parts)\<close>.\<close>

fun join_str :: "string \<Rightarrow> string list \<Rightarrow> string" where
  "join_str sep [] = []"
| "join_str sep [x] = x"
| "join_str sep (x # y # ys) = x @ sep @ join_str sep (y # ys)"

definition digit_char :: "nat \<Rightarrow> char" where
  "digit_char d = char_of (48 + d)"

text \<open>Python's \<open>str\<close> of a non-negative integer.\<close>

fun str_nat :: "nat \<Rightarrow> string" where
  "str_nat n = (if n < 10 then [digit_char n] else str_nat (n div 10) @ [digit_char (n mod 10)])"

declare str_nat.simps [simp del]

text \<open>The first line of a text: \<open>s.split("\n")[0]\<close>.\<close>

definition first_line :: "string \<Rightarrow> string" where
  "first_line s = takeWhile (\<lambda>c. c \<noteq> CHR 0x0A) s"

subsection \<open>The store\<close>

text \<open>The three queries of the cog.\<close>

definition due_query :: "int \<Rightarrow> announcement list \<Rightarrow> announcement list" where
  "due_query now rs = filter (\<lambda>a. trigger_at a \<le> now \<and> triggered a = False) rs"

definition pending_query :: "int \<Rightarrow> announcement list \<Rightarrow> announcement list" where
  "pending_query now rs = filter (\<lambda>a. trigger_at a \<ge> now \<and> triggered a = False) rs"

definition first_by_id :: "nat \<Rightarrow> announcement list \<Rightarrow> announcement option" where
  "first_by_id i rs = find (\<lambda>a. ann_id a = i) rs"

text \<open>
  The writes the session flushes at a commit; the row is addressed by its primary
  key.
\<close>

definition set_triggered :: "nat \<Rightarrow> announcement list \<Rightarrow> announcement list" where
  "set_triggered i rs = map (\<lambda>r. if ann_id r = i then r\<lparr>triggered := True\<rparr> else r) rs"

definition set_content :: "nat \<Rightarrow> string \<Rightarrow> announcement list \<Rightarrow> announcement list" where
  "set_content i c rs = map (\<lambda>r. if ann_id r = i then r\<lparr>announcement_content := c\<rparr> else r) rs"

definition delete_row :: "nat \<Rightarrow> announcement list \<Rightarrow> announcement list" where
  "delete_row i rs = filter (\<lambda>r. ann_id r \<noteq> i) rs"

text \<open>Python's truth value of \<open>a.irc_name\<close>: \<open>None\<close> and the empty string are false.\<close>

definition has_irc_name :: "announcement \<Rightarrow> bool" where
  "has_irc_name a = (case irc_name a of None \<Rightarrow> False | Some n \<Rightarrow> n \<noteq> [])"

subsection \<open>The chat\<close>

definition emit :: "event list \<Rightarrow> world \<Rightarrow> world" where
  "emit evs w = w\<lparr>trace := trace w @ evs\<rparr>"

text \<open>\<open>ctx.send(text)\<close>, where the message that results is not used.\<close>

definition ctx_send :: "string \<Rightarrow> world \<Rightarrow> world" where
  "ctx_send text w = emit [Send Default_mentions text] w"

text \<open>\<open>channel.send(text)\<close>, where the message that results is kept.\<close>

definition channel_send :: "string \<Rightarrow> world \<Rightarrow> nat \<times> world" where
  "channel_send text w =
     (fresh w, w\<lparr>live := live w @ [fresh w], fresh := Suc (fresh w),
                 trace := trace w @ [Send Default_mentions text]\<rparr>)"

text \<open>\<open>message.delete()\<close>.\<close>

definition delete_message :: "nat \<Rightarrow> world \<Rightarrow> world" where
  "delete_message m w = w\<lparr>live := removeAll m (live w), trace := trace w @ [Delete m]\<rparr>"

fun delete_messages :: "nat list \<Rightarrow> world \<Rightarrow> world" where
  "delete_messages [] w = w"
| "delete_messages (m # ms) w = delete_messages ms (delete_message m w)"

text \<open>
  A call of \<open>generate_announcement\<close>: it posts the messages it returns, or raises.
\<close>

definition generate_announcement :: "env \<Rightarrow> gen_args \<Rightarrow> world \<Rightarrow> world \<times> (error + nat list)" where
  "generate_announcement e args w =
     (case generate e args of
        Inl err \<Rightarrow> (emit [Generate args] w, Inl err)
      | Inr k \<Rightarrow>
          (w\<lparr>live := live w @ [fresh w ..< fresh w + k], fresh := fresh w + k,
             trace := trace w @ [Generate args]\<rparr>,
           Inr [fresh w ..< fresh w + k]))"

subsection \<open>get_webhook\<close>

text \<open>
  \<open>channel\<close> is what \<open>bot.get_channel\<close> gave: on \<open>None\<close> the attribute access
  \<open>channel.webhooks\<close> raises AttributeError inside the \<open>try\<close>, which catches
  MissingPermissions only.
\<close>

definition catch_missing_permissions :: "error + webhook \<Rightarrow> error + webhook option" where
  "catch_missing_permissions r =
     (case r of
        Inl err \<Rightarrow> (if err = MissingPermissions then Inr None else Inl err)
      | Inr wh \<Rightarrow> Inr (Some wh))"

definition get_webhook :: "env \<Rightarrow> nat option \<Rightarrow> error + webhook option" where
  "get_webhook e channel =
     (case channel of
        None \<Rightarrow> Inl AttributeError
      | Some c \<Rightarrow>
          (case channel_webhooks e c of
             Inl err \<Rightarrow> (if err = MissingPermissions then Inr None else Inl err)
           | Inr webhooks \<Rightarrow>
               (case find (\<lambda>wh. wh_name wh = ''Apollo Announcements'') webhooks of
                  Some wh \<Rightarrow> Inr (Some wh)
                | None \<Rightarrow> catch_missing_permissions (create_webhook e c ''Apollo Announcements''))))"

subsection \<open>The scheduler: announcement_check\<close>

text \<open>The author's name and avatar for a due row.\<close>

definition author_info :: "env \<Rightarrow> announcement \<Rightarrow> error + (string \<times> string option)" where
  "author_info e a =
     (if has_irc_name a then
        (case irc_name a of Some n \<Rightarrow> Inr (n, None) | None \<Rightarrow> Inl AttributeError)
      else if impersonate e then
        (case user_uid e (user_id a) of
           None \<Rightarrow> Inl AttributeError
         | Some uid \<Rightarrow>
             (case get_user e uid of
                None \<Rightarrow> Inl AttributeError
              | Some u \<Rightarrow> Inr (user_name u, Some (avatar_url u))))
      else Inr (user_name (bot_user e), Some (avatar_url (bot_user e))))"

definition delivery_args :: "announcement \<Rightarrow> nat option \<Rightarrow> webhook option \<Rightarrow> string \<times> string option \<Rightarrow> gen_args" where
  "delivery_args a c wh na =
     \<lparr>g_channel = c, g_message = announcement_content a, g_webhook = wh,
      g_name = fst na, g_avatar = snd na, g_mentions = All_mentions\<rparr>"

text \<open>
  The body of the \<open>for\<close> loop, for one row of the query's result. An exception
  leaves the loop and the task; the world is the one reached when it was raised.
\<close>

definition deliver_one :: "env \<Rightarrow> announcement \<Rightarrow> world \<Rightarrow> world \<times> error option" where
  "deliver_one e a w =
     (let channel = get_channel e (playback_channel_id a) in
      case get_webhook e channel of
        Inl err \<Rightarrow> (w, Some err)
      | Inr wh \<Rightarrow>
          (case author_info e a of
             Inl err \<Rightarrow> (w, Some err)
           | Inr na \<Rightarrow>
               (if commit_fails e (set_triggered (ann_id a) (rows w))
                then (emit [Mark_triggered (ann_id a)] w, Some SQLAlchemyError)
                else
                  (case generate_announcement e (delivery_args a channel wh na)
                          (emit [Mark_triggered (ann_id a), Commit]
                             (w\<lparr>rows := set_triggered (ann_id a) (rows w)\<rparr>)) of
                     (w', Inl err) \<Rightarrow> (w', Some err)
                   | (w', Inr ms) \<Rightarrow> (w', None)))))"

fun deliver_all :: "env \<Rightarrow> announcement list \<Rightarrow> world \<Rightarrow> world \<times> error option" where
  "deliver_all e [] w = (w, None)"
| "deliver_all e (a # as) w =
     (case deliver_one e a w of
        (w', Some err) \<Rightarrow> (w', Some err)
      | (w', None) \<Rightarrow> deliver_all e as w')"

text \<open>One turn of the \<open>while\<close> loop, at clock reading \<open>now\<close>.\<close>

definition scheduler_cycle :: "env \<Rightarrow> int \<Rightarrow> world \<Rightarrow> world \<times> error option" where
  "scheduler_cycle e now w =
     (case deliver_all e (due_query now (rows w)) w of
        (w', Some err) \<Rightarrow> (w', Some err)
      | (w', None) \<Rightarrow> (emit [Sleep (search_interval e)] w', None))"


subsection \<open>The preview menu\<close>

text \<open>The reactions as the text \<open>str(reaction)\<close> gives (UTF-8).\<close>

fun emoji :: "reaction \<Rightarrow> string" where
  "emoji Tick = [CHR 0xE2, CHR 0x9C, CHR 0x85]"
| "emoji Pencil = [CHR 0xE2, CHR 0x9C, CHR 0x8F, CHR 0xEF, CHR 0xB8, CHR 0x8F]"
| "emoji Cross = [CHR 0xE2, CHR 0x9D, CHR 0x8C]"

text \<open>
  The callback \<open>interact\<close> of \<open>preview_edit_menu\<close>, with the variables it closes
  over (\<open>ctx\<close>, \<open>messages\<close>, \<open>announcement_content\<close>, \<open>preview\<close>) as arguments.
\<close>

definition interact :: "ctx \<Rightarrow> nat list \<Rightarrow> string \<Rightarrow> bool \<Rightarrow> nat \<Rightarrow> reaction \<Rightarrow> world \<Rightarrow> world \<times> bool" where
  "interact c messages content preview msg reaction w =
     (let w1 = delete_message msg w in
      if reaction = Cross \<or> reaction = Pencil then
        (let w2 = delete_messages messages w1;
             w3 = (if reaction = Cross then ctx_send ''Announcement cancelled'' w2 else w2);
             w4 = (if reaction = Pencil then emit [Process_commands (ctx_message_id c)] w3 else w3)
         in (w4, False))
      else
        (let w2 = (if preview
                   then ctx_send (''Preview complete. Send this message with'' @ newline @
                                  ''`!announcement add #announcements 10s '' @ newline @
                                  content @ ''`'') w1
                   else w1)
         in (delete_messages messages w2, True)))"

text \<open>The callback \<open>timeout\<close> of \<open>preview_edit_menu\<close>.\<close>

definition timeout :: "nat list \<Rightarrow> string \<Rightarrow> nat \<Rightarrow> world \<Rightarrow> world \<times> bool" where
  "timeout messages content msg w =
     (let w1 = delete_message msg w;
          w2 = ctx_send (''**Timeout.** Restart posting with: `!announcement preview '' @
                         content @ ''`'') w1
      in (delete_messages messages w2, False))"

text \<open>
  Modelled from the spec: \<open>confirmation\<close> of \<open>utils.announce_utils\<close> is not part of
  the file. The spec's confirmation workflow posts a prompt message that offers the
  choices and waits; the requester's reaction with one of them, or the timeout,
  ends the wait, and the workflow returns what the matching callback returns. The
  outcome of the wait is an argument.
\<close>

definition confirmation :: "string \<Rightarrow> string \<Rightarrow> (nat \<Rightarrow> reaction \<Rightarrow> world \<Rightarrow> world \<times> bool) \<Rightarrow>
    (nat \<Rightarrow> world \<Rightarrow> world \<times> bool) \<Rightarrow> outcome \<Rightarrow> world \<Rightarrow> world \<times> bool" where
  "confirmation title body on_react on_timeout oc w =
     (case channel_send (title @ newline @ body) w of
        (msg, w1) \<Rightarrow>
          (case oc of
             Reacted r \<Rightarrow> on_react msg r w1
           | Timed_out \<Rightarrow> on_timeout msg w1))"

definition preview_edit_menu :: "ctx \<Rightarrow> nat list \<Rightarrow> string \<Rightarrow> bool \<Rightarrow> outcome \<Rightarrow> world \<Rightarrow> world \<times> bool" where
  "preview_edit_menu c messages content preview oc w =
     confirmation ''Edit Preview''
       (''  '' @ emoji Tick @ '' to '' @ (if preview then ''finalize'' else ''schedule announcement'') @ newline @
        ''  '' @ emoji Pencil @ '' to edit (make changes in source first)'' @ newline @
        ''  '' @ emoji Cross @ '' to cancel'')
       (interact c messages content preview)
       (timeout messages content)
       oc w"

text \<open>
  \<open>Announcements.preview_announcement\<close>: \<open>None\<close> is returned when no menu is asked
  for.
\<close>

definition preview_announcement :: "env \<Rightarrow> ctx \<Rightarrow> string \<Rightarrow> bool \<Rightarrow> bool \<Rightarrow> outcome \<Rightarrow> world \<Rightarrow>
    world \<times> (error + bool option)" where
  "preview_announcement e c content preview menu oc w =
     (case get_webhook e (Some (ctx_channel c)) of
        Inl err \<Rightarrow> (w, Inl err)
      | Inr wh \<Rightarrow>
          (case channel_send ''**Announcement Preview:**'' w of
             (m0, w1) \<Rightarrow>
               (let author = (if impersonate e then ctx_author c else bot_user e) in
                case generate_announcement e
                       \<lparr>g_channel = Some (ctx_channel c), g_message = content,
                        g_webhook = wh, g_name = user_name author,
                        g_avatar = Some (avatar_url author), g_mentions = Default_mentions\<rparr> w1 of
                  (w2, Inl err) \<Rightarrow> (w2, Inl err)
                | (w2, Inr ms) \<Rightarrow>
                    (case channel_send ''**End of Announcement Preview**'' w2 of
                       (m1, w3) \<Rightarrow>
                         (if menu then
                            (case preview_edit_menu c ([m0] @ ms @ [m1]) content preview oc w3 of
                               (w4, b) \<Rightarrow> (w4, Inr (Some b)))
                          else (w3, Inr None))))))"

subsection \<open>The commands\<close>

definition add_announcement :: "env \<Rightarrow> ctx \<Rightarrow> nat \<Rightarrow> int \<Rightarrow> string \<Rightarrow> world \<Rightarrow> world \<times> error option" where
  "add_announcement e c channel trigger_time content w =
     (case (if ctx_is_irc_bot c then Inr (1, Some (ctx_name_string c))
            else (case ctx_database_user c of
                    None \<Rightarrow> Inl AttributeError
                  | Some uid \<Rightarrow> Inr (uid, None))) of
        Inl err \<Rightarrow> (w, Some err)
      | Inr (author_id, irc_n) \<Rightarrow>
          (let new_announcement =
                 \<lparr>ann_id = next_id w, user_id = author_id,
                  announcement_content = content, trigger_at = trigger_time,
                  triggered = False, playback_channel_id = channel, irc_name = irc_n\<rparr>
           in if commit_fails e (rows w @ [new_announcement])
              then (emit [Rollback, Log_exception SQLAlchemyError,
                          Send Default_mentions ''Something went wrong''] w, None)
              else (emit [Commit,
                          Send Default_mentions
                            (''Announcement prepared for <t:'' @ timestamp_str e trigger_time @
                             '':R> (granularity is '' @ precisedelta e (search_interval e) @ '').'')]
                      (w\<lparr>rows := rows w @ [new_announcement], next_id := Suc (next_id w)\<rparr>),
                    None)))"

text \<open>
  \<open>Announcements.add\<close>. \<open>trigger_time\<close> is what the converter gave (\<open>None\<close> when it
  gave nothing), \<open>now\<close> the clock reading taken first.
\<close>

definition Announcements_add :: "env \<Rightarrow> ctx \<Rightarrow> int \<Rightarrow> nat \<Rightarrow> int option \<Rightarrow> string \<Rightarrow> outcome \<Rightarrow> world \<Rightarrow>
    world \<times> error option" where
  "Announcements_add e c now channel trigger_time content oc w =
     (case trigger_time of
        None \<Rightarrow> (ctx_send ''Incorrect time format, please see help text.'' w, None)
      | Some t \<Rightarrow>
          (if t < now then (ctx_send ''That time is in the past.'' w, None)
           else
             (case preview_announcement e c content False True oc w of
                (w1, Inl err) \<Rightarrow> (w1, Some err)
              | (w1, Inr result) \<Rightarrow>
                  (if result = Some True
                   then add_announcement e c channel t content w1
                   else (w1, None)))))"

definition Announcements_preview :: "env \<Rightarrow> ctx \<Rightarrow> string \<Rightarrow> outcome \<Rightarrow> world \<Rightarrow> world \<times> error option" where
  "Announcements_preview e c content oc w =
     (case preview_announcement e c content True True oc w of
        (w1, Inl err) \<Rightarrow> (w1, Some err)
      | (w1, Inr result) \<Rightarrow> (w1, None))"

text \<open>The author shown by \<open>list\<close> for a row.\<close>

definition list_author :: "env \<Rightarrow> announcement \<Rightarrow> error + string" where
  "list_author e a =
     (if has_irc_name a then
        (case irc_name a of Some n \<Rightarrow> Inr n | None \<Rightarrow> Inl AttributeError)
      else
        (case user_uid e (user_id a) of
           None \<Rightarrow> Inl AttributeError
         | Some uid \<Rightarrow>
             (case get_user e uid of
                None \<Rightarrow> Inl AttributeError
              | Some u \<Rightarrow> Inr (user_mention u))))"

definition list_entry :: "env \<Rightarrow> announcement \<Rightarrow> string \<Rightarrow> string" where
  "list_entry e a author_name =
     ''**'' @ str_nat (ann_id a) @ '': in <#'' @ str_nat (playback_channel_id a) @ ''> <t:'' @
     timestamp_str e (trigger_at a) @ '':R> by '' @ author_name @ ''**'' @ newline @
     [CHR 0x09] @ first_line (announcement_content a) @ newline"

fun list_entries :: "env \<Rightarrow> announcement list \<Rightarrow> error + string list" where
  "list_entries e [] = Inr []"
| "list_entries e (a # as) =
     (case list_author e a of
        Inl err \<Rightarrow> Inl err
      | Inr author_name \<Rightarrow>
          (case list_entries e as of
             Inl err \<Rightarrow> Inl err
           | Inr rest \<Rightarrow> Inr (list_entry e a author_name # rest)))"

definition Announcements_list :: "env \<Rightarrow> int \<Rightarrow> world \<Rightarrow> world \<times> error option" where
  "Announcements_list e now w =
     (case list_entries e (pending_query now (rows w)) of
        Inl err \<Rightarrow> (w, Some err)
      | Inr entries \<Rightarrow>
          (emit (map (Send No_mentions)
                   (split_into_messages e (''**Pending Announcements:**'' # entries))) w,
           None))"

definition Announcements_cancel :: "env \<Rightarrow> nat \<Rightarrow> world \<Rightarrow> world \<times> error option" where
  "Announcements_cancel e announcement_id w =
     (case first_by_id announcement_id (rows w) of
        Some result \<Rightarrow>
          (if commit_fails e (delete_row announcement_id (rows w))
           then (w, Some SQLAlchemyError)
           else (emit [Commit, Send Default_mentions ''Announcement Deleted'']
                   (w\<lparr>rows := delete_row announcement_id (rows w)\<rparr>), None))
      | None \<Rightarrow> (ctx_send ''Announcement does not exist'' w, None))"

definition Announcements_check :: "env \<Rightarrow> ctx \<Rightarrow> nat \<Rightarrow> outcome \<Rightarrow> world \<Rightarrow> world \<times> error option" where
  "Announcements_check e c announcement_id oc w =
     (case first_by_id announcement_id (rows w) of
        None \<Rightarrow> (w, Some AttributeError)
      | Some result \<Rightarrow>
          (case preview_announcement e c (announcement_content result) True False oc
                  (ctx_send (''**Message Source:**```'' @ newline @
                             announcement_content result @ ''```'') w) of
             (w1, Inl err) \<Rightarrow> (w1, Some err)
           | (w1, Inr r) \<Rightarrow> (w1, None)))"

definition Announcements_mention :: "env \<Rightarrow> nat \<Rightarrow> role list \<Rightarrow> world \<Rightarrow> world \<times> error option" where
  "Announcements_mention e announcement_id roles w =
     (case first_by_id announcement_id (rows w) of
        None \<Rightarrow> (w, Some AttributeError)
      | Some announcement \<Rightarrow>
          (let content = announcement_content announcement @ newline @
                         join_str '' '' (map role_mention roles);
               rows' = set_content announcement_id content (rows w)
           in if commit_fails e rows' then (w, Some SQLAlchemyError)
              else (emit [Commit,
                          Send Default_mentions
                            (''Pings added for '' @ join_str '', '' (map role_name roles) @
                             '' to announcement '' @ str_nat announcement_id @ ''.'')]
                      (w\<lparr>rows := rows'\<rparr>), None)))"

subsection \<open>Reading a trace\<close>

text \<open>
  The ids whose flag a trace sets, in order; the events a run added to the trace; the
  ids of the rows of a table that are not triggered yet; the write of
  \<open>set_triggered\<close> on one row; and what every run of the scheduler keeps of the
  world it started from.
\<close>

fun marked_ids :: "event list \<Rightarrow> nat list" where
  "marked_ids [] = []"
| "marked_ids (Mark_triggered i # evs) = i # marked_ids evs"
| "marked_ids (ev # evs) = marked_ids evs"

definition new_events :: "world \<Rightarrow> world \<Rightarrow> event list" where
  "new_events w w' = drop (length (trace w)) (trace w')"

definition untriggered_ids :: "announcement list \<Rightarrow> nat set" where
  "untriggered_ids rs = ann_id ` {a \<in> set rs. \<not> triggered a}"


definition extends :: "world \<Rightarrow> world \<Rightarrow> nat list \<Rightarrow> bool" where
  "extends w w' ms \<longleftrightarrow>
     (\<exists>evs. trace w' = trace w @ evs \<and> marked_ids evs = ms) \<and>
     map ann_id (rows w') = map ann_id (rows w) \<and>
     untriggered_ids (rows w') \<subseteq> untriggered_ids (rows w) \<and>
     (\<forall>a \<in> set (rows w). triggered a \<longrightarrow> a \<in> set (rows w'))"

text \<open>
  The arguments with which \<open>preview_announcement\<close> calls \<open>generate_announcement\<close>.
\<close>

definition preview_args :: "env \<Rightarrow> ctx \<Rightarrow> string \<Rightarrow> webhook option \<Rightarrow> gen_args" where
  "preview_args e c content wh =
     \<lparr>g_channel = Some (ctx_channel c), g_message = content, g_webhook = wh,
      g_name = user_name (if impersonate e then ctx_author c else bot_user e),
      g_avatar = Some (avatar_url (if impersonate e then ctx_author c else bot_user e)),
      g_mentions = Default_mentions\<rparr>"

text \<open>The write of \<open>set_content\<close> on one row.\<close>

definition content_row :: "nat \<Rightarrow> string \<Rightarrow> announcement \<Rightarrow> announcement" where
  "content_row i c r = (if ann_id r = i then r\<lparr>announcement_content := c\<rparr> else r)"

subsection \<open>Example data\<close>

definition demo_bot :: user where
  "demo_bot = \<lparr>user_name = ''Apollo'', avatar_url = ''apollo.png'', user_mention = ''<@1>''\<rparr>"

definition demo_env :: env where
  "demo_env =
     \<lparr>impersonate = False, search_interval = 60, bot_user = demo_bot,
      get_channel = (\<lambda>c. if c = 7 then Some 7 else None),
      get_user = (\<lambda>u. None), user_uid = (\<lambda>u. None),
      channel_webhooks = (\<lambda>c. Inl MissingPermissions),
      create_webhook = (\<lambda>c n. Inl MissingPermissions),
      generate = (\<lambda>g. if g_message g = ''boom'' then Inl (OtherError 0) else Inr 1),
      commit_fails = (\<lambda>rs. False),
      timestamp_str = (\<lambda>t. str_nat (nat t)),
      precisedelta = (\<lambda>n. str_nat n @ '' seconds''),
      split_into_messages = (\<lambda>xs. xs)\<rparr>"

definition demo_row :: "nat \<Rightarrow> string \<Rightarrow> int \<Rightarrow> bool \<Rightarrow> announcement" where
  "demo_row i c t tr =
     \<lparr>ann_id = i, user_id = 1, announcement_content = c, trigger_at = t, triggered = tr,
      playback_channel_id = 7, irc_name = None\<rparr>"

definition demo_world :: "announcement list \<Rightarrow> world" where
  "demo_world rs = \<lparr>rows = rs, next_id = 10, live = [], fresh = 0, trace = []\<rparr>"

definition demo_before :: world where
  "demo_before = demo_world [demo_row 1 ''old'' 5 True, demo_row 2 ''new'' 8 False]"

definition demo_delivery :: "string \<Rightarrow> gen_args" where
  "demo_delivery c =
     \<lparr>g_channel = Some 7, g_message = c, g_webhook = None, g_name = ''Apollo'',
      g_avatar = Some ''apollo.png'', g_mentions = All_mentions\<rparr>"

definition demo_after :: world where
  "demo_after =
     \<lparr>rows = [demo_row 1 ''old'' 5 True, demo_row 2 ''new'' 8 True], next_id = 10,
      live = [0], fresh = 1,
      trace = [Mark_triggered 2, Commit, Generate (demo_delivery ''new''), Sleep 60, Sleep 60]\<rparr>"



definition demo_author :: user where
  "demo_author = \<lparr>user_name = ''alice'', avatar_url = ''alice.png'', user_mention = ''<@42>''\<rparr>"

definition demo_ctx :: ctx where
  "demo_ctx =
     \<lparr>ctx_channel = 3, ctx_author = demo_author, ctx_message_id = 99, ctx_is_irc_bot = False,
      ctx_name_string = ''alice'', ctx_database_user = Some 42\<rparr>"

definition demo_unresolved :: world where
  "demo_unresolved =
     demo_world [(demo_row 4 ''lost'' 8 False)\<lparr>playback_channel_id := 8\<rparr>, demo_row 2 ''new'' 8 False]"

definition demo_two_due :: world where
  "demo_two_due = demo_world [demo_row 2 ''new'' 8 False, demo_row 5 ''next'' 9 False]"

definition demo_chat :: world where
  "demo_chat = \<lparr>rows = [], next_id = 10, live = [1, 2, 3, 4], fresh = 5, trace = []\<rparr>"

definition demo_roles :: "role list" where
  "demo_roles = [\<lparr>role_name = ''exec'', role_mention = ''<@&11>''\<rparr>,
                 \<lparr>role_name = ''members'', role_mention = ''<@&12>''\<rparr>]"

definition demo_pending :: world where
  "demo_pending = demo_world [demo_row 1 ''old'' 5 True, demo_row 2 ''new'' 8 False]"


definition demo_irc_ctx :: ctx where
  "demo_irc_ctx =
     \<lparr>ctx_channel = 3, ctx_author = demo_bot, ctx_message_id = 98, ctx_is_irc_bot = True,
      ctx_name_string = ''bob'', ctx_database_user = None\<rparr>"

section \<open>Auxiliary facts\<close>























lemmas demo_defs = demo_env_def demo_world_def demo_row_def demo_bot_def demo_before_def
  demo_after_def demo_delivery_def

lemmas scheduler_defs = scheduler_cycle_def due_query_def deliver_one_def get_webhook_def
  author_info_def has_irc_name_def set_triggered_def generate_announcement_def
  delivery_args_def emit_def Let_def




lemmas command_defs = Announcements_add_def preview_announcement_def preview_edit_menu_def
  confirmation_def interact_def timeout_def add_announcement_def channel_send_def ctx_send_def
  delete_message_def generate_announcement_def get_webhook_def emit_def Let_def

lemma delete_row_no_id: "x \<in> set (delete_row i rs) \<Longrightarrow> ann_id x \<noteq> i"
  by (simp add: delete_row_def)

lemma delete_message_fields:
  "live (delete_message m w) = removeAll m (live w)"
  "rows (delete_message m w) = rows w"
  "next_id (delete_message m w) = next_id w"
  "trace (delete_message m w) = trace w @ [Delete m]"
  by (simp_all add: delete_message_def)

lemma delete_messages_live:
  "live (delete_messages ms w) = filter (\<lambda>m. m \<notin> set ms) (live w)"
proof (induction ms arbitrary: w)
  case Nil
  show ?case by simp
next
  case (Cons m ms)
  have "live (delete_messages (m # ms) w) = filter (\<lambda>x. x \<notin> set ms) (removeAll m (live w))"
    by (simp add: Cons.IH delete_message_fields)
  also have "\<dots> = filter (\<lambda>x. x \<notin> set (m # ms)) (live w)"
    by (auto simp: removeAll_filter_not_eq intro: filter_cong)
  finally show ?case .
qed

lemma delete_messages_rows:
  "rows (delete_messages ms w) = rows w \<and> next_id (delete_messages ms w) = next_id w"
  by (induction ms arbitrary: w) (simp_all add: delete_message_fields)

lemma delete_messages_trace:
  "trace (delete_messages ms w) = trace w @ map Delete ms"
  by (induction ms arbitrary: w) (simp_all add: delete_message_fields)

lemma extends_trace: "extends w w' ms \<Longrightarrow> trace w' = trace w @ new_events w w'"
  unfolding extends_def new_events_def by auto










lemma preview_confirmed:
  assumes "get_webhook e (Some (ctx_channel c)) = Inr wh"
      and "generate e (preview_args e c content wh) = Inr k"
  shows "snd (preview_announcement e c content preview True (Reacted Tick) w) = Inr (Some True)
       \<and> rows (fst (preview_announcement e c content preview True (Reacted Tick) w)) = rows w
       \<and> next_id (fst (preview_announcement e c content preview True (Reacted Tick) w)) = next_id w"
  using assms
  by (simp add: preview_announcement_def preview_args_def channel_send_def
      generate_announcement_def preview_edit_menu_def confirmation_def interact_def
      delete_messages_rows delete_message_fields ctx_send_def emit_def Let_def
      split: prod.split)

lemma add_announcement_stores:
  assumes "(ctx_is_irc_bot c \<and> uid = 1 \<and> irc = Some (ctx_name_string c))
           \<or> (\<not> ctx_is_irc_bot c \<and> ctx_database_user c = Some uid \<and> irc = None)"
      and "\<not> commit_fails e (rows w @
             [\<lparr>ann_id = next_id w, user_id = uid, announcement_content = content,
               trigger_at = t, triggered = False, playback_channel_id = channel,
               irc_name = irc\<rparr>])"
  shows "rows (fst (add_announcement e c channel t content w)) =
           rows w @ [\<lparr>ann_id = next_id w, user_id = uid, announcement_content = content,
                      trigger_at = t, triggered = False, playback_channel_id = channel,
                      irc_name = irc\<rparr>]
       \<and> snd (add_announcement e c channel t content w) = None"
  using assms by (auto simp: add_announcement_def emit_def Let_def)

lemma add_confirmed_stores:
  assumes "now \<le> t"
      and "get_webhook e (Some (ctx_channel c)) = Inr wh"
      and "generate e (preview_args e c content wh) = Inr k"
      and "(ctx_is_irc_bot c \<and> uid = 1 \<and> irc = Some (ctx_name_string c))
           \<or> (\<not> ctx_is_irc_bot c \<and> ctx_database_user c = Some uid \<and> irc = None)"
      and "\<not> commit_fails e (rows w @
             [\<lparr>ann_id = next_id w, user_id = uid, announcement_content = content,
               trigger_at = t, triggered = False, playback_channel_id = channel,
               irc_name = irc\<rparr>])"
  shows "rows (fst (Announcements_add e c now channel (Some t) content (Reacted Tick) w)) =
           rows w @ [\<lparr>ann_id = next_id w, user_id = uid, announcement_content = content,
                      trigger_at = t, triggered = False, playback_channel_id = channel,
                      irc_name = irc\<rparr>]
       \<and> snd (Announcements_add e c now channel (Some t) content (Reacted Tick) w) = None"
proof -
  obtain w1 x where p: "preview_announcement e c content False True (Reacted Tick) w = (w1, x)"
    by (cases "preview_announcement e c content False True (Reacted Tick) w") auto
  from preview_confirmed[OF assms(2,3), of False w] p
  have x: "x = Inr (Some True)" and r1: "rows w1 = rows w" and n1: "next_id w1 = next_id w"
    by simp_all
  have run: "Announcements_add e c now channel (Some t) content (Reacted Tick) w =
             add_announcement e c channel t content w1"
    using assms(1) p x by (simp add: Announcements_add_def)
  from assms(5) have c1: "\<not> commit_fails e (rows w1 @
             [\<lparr>ann_id = next_id w1, user_id = uid, announcement_content = content,
               trigger_at = t, triggered = False, playback_channel_id = channel,
               irc_name = irc\<rparr>])"
    unfolding r1 n1 .
  from add_announcement_stores[OF assms(4) c1] show ?thesis
    unfolding run r1 n1 .
qed

lemma set_content_rows: "set_content i c rs = map (content_row i c) rs"
  by (simp add: set_content_def content_row_def)


lemma first_by_id_set_content:
  "first_by_id i (set_content i c rs) =
     map_option (\<lambda>a. a\<lparr>announcement_content := c\<rparr>) (first_by_id i rs)"
proof (induction rs)
  case Nil
  show ?case by (simp add: first_by_id_def set_content_rows)
next
  case (Cons r rs)
  show ?case
  proof (cases "ann_id r = i")
    case True
    then show ?thesis by (simp add: first_by_id_def set_content_rows content_row_def)
  next
    case False
    then have "first_by_id i (set_content i c (r # rs)) = first_by_id i (set_content i c rs)"
      by (simp add: first_by_id_def set_content_rows content_row_def)
    also have "\<dots> = map_option (\<lambda>a. a\<lparr>announcement_content := c\<rparr>) (first_by_id i rs)"
      by (rule Cons.IH)
    also have "\<dots> = map_option (\<lambda>a. a\<lparr>announcement_content := c\<rparr>) (first_by_id i (r # rs))"
      using False by (simp add: first_by_id_def)
    finally show ?thesis .
  qed
qed


lemma mention_result:
  assumes "first_by_id i (rows w) = Some a"
  shows "Announcements_mention e i roles w =
          (if commit_fails e (set_content i (announcement_content a @ newline @
                                 join_str '' '' (map role_mention roles)) (rows w))
           then (w, Some SQLAlchemyError)
           else (emit [Commit,
                       Send Default_mentions
                         (''Pings added for '' @ join_str '', '' (map role_name roles) @
                          '' to announcement '' @ str_nat i @ ''.'')]
                   (w\<lparr>rows := set_content i (announcement_content a @ newline @
                                 join_str '' '' (map role_mention roles)) (rows w)\<rparr>), None))"
  using assms by (simp add: Announcements_mention_def Let_def)




lemma interact_rows:
  "rows (fst (interact c ms content p msg re w)) = rows w
   \<and> next_id (fst (interact c ms content p msg re w)) = next_id w"
  by (simp add: interact_def Let_def delete_messages_rows delete_message_fields ctx_send_def emit_def)

lemma timeout_rows:
  "rows (fst (timeout ms content msg w)) = rows w
   \<and> next_id (fst (timeout ms content msg w)) = next_id w"
  by (simp add: timeout_def Let_def delete_messages_rows delete_message_fields ctx_send_def emit_def)

lemma channel_send_rows:
  "rows (snd (channel_send t w)) = rows w \<and> next_id (snd (channel_send t w)) = next_id w"
  by (simp add: channel_send_def)

lemma preview_edit_menu_rows:
  "rows (fst (preview_edit_menu c ms content p oc w)) = rows w
   \<and> next_id (fst (preview_edit_menu c ms content p oc w)) = next_id w"
proof (cases oc)
  case (Reacted re)
  then show ?thesis
    by (simp add: preview_edit_menu_def confirmation_def split: prod.split)
       (metis channel_send_rows interact_rows snd_conv)
next
  case Timed_out
  then show ?thesis
    by (simp add: preview_edit_menu_def confirmation_def split: prod.split)
       (metis channel_send_rows timeout_rows snd_conv)
qed

lemma generate_announcement_rows:
  "rows (fst (generate_announcement e g w)) = rows w
   \<and> next_id (fst (generate_announcement e g w)) = next_id w"
  by (cases "generate e g") (simp_all add: generate_announcement_def emit_def)

lemma preview_announcement_rows:
  "rows (fst (preview_announcement e c content p menu oc w)) = rows w
   \<and> next_id (fst (preview_announcement e c content p menu oc w)) = next_id w"
proof (cases "get_webhook e (Some (ctx_channel c))")
  case (Inl err)
  then show ?thesis by (simp add: preview_announcement_def)
next
  case (Inr wh)
  obtain m0 w1 where s1: "channel_send ''**Announcement Preview:**'' w = (m0, w1)"
    by (cases "channel_send ''**Announcement Preview:**'' w") auto
  let ?g = "\<lparr>g_channel = Some (ctx_channel c), g_message = content, g_webhook = wh,
             g_name = user_name (if impersonate e then ctx_author c else bot_user e),
             g_avatar = Some (avatar_url (if impersonate e then ctx_author c else bot_user e)),
             g_mentions = Default_mentions\<rparr>"
  obtain w2 x where g: "generate_announcement e ?g w1 = (w2, x)"
    by (cases "generate_announcement e ?g w1") auto
  from channel_send_rows[of "''**Announcement Preview:**''" w] s1
  have r1: "rows w1 = rows w" "next_id w1 = next_id w" by simp_all
  from generate_announcement_rows[of e ?g w1] g r1
  have r2: "rows w2 = rows w" "next_id w2 = next_id w" by simp_all
  show ?thesis
  proof (cases x)
    case (Inl err)
    with Inr s1 g r2 show ?thesis by (simp add: preview_announcement_def Let_def)
  next
    case ms: (Inr ms)
    obtain m1 w3 where s3: "channel_send ''**End of Announcement Preview**'' w2 = (m1, w3)"
      by (cases "channel_send ''**End of Announcement Preview**'' w2") auto
    from channel_send_rows[of "''**End of Announcement Preview**''" w2] s3 r2
    have r3: "rows w3 = rows w" "next_id w3 = next_id w" by simp_all
    show ?thesis
    proof (cases menu)
      case False
      with Inr s1 g ms s3 r3 show ?thesis by (simp add: preview_announcement_def Let_def)
    next
      case True
      obtain w4 b where m: "preview_edit_menu c ([m0] @ ms @ [m1]) content p oc w3 = (w4, b)"
        by (cases "preview_edit_menu c ([m0] @ ms @ [m1]) content p oc w3") auto
      from preview_edit_menu_rows[of c "[m0] @ ms @ [m1]" content p oc w3] m r3
      have r4: "rows w4 = rows w" "next_id w4 = next_id w" by simp_all
      from Inr s1 g ms s3 True m r4 show ?thesis
        by (simp add: preview_announcement_def Let_def)
    qed
  qed
qed

lemma add_announcement_row:
  assumes "add_announcement e c channel t content w = (w', r)" and "rows w' \<noteq> rows w"
  shows "rows w' = rows w @
           [\<lparr>ann_id = next_id w,
             user_id = (if ctx_is_irc_bot c then 1 else user_id (last (rows w'))),
             announcement_content = content, trigger_at = t, triggered = False,
             playback_channel_id = channel,
             irc_name = (if ctx_is_irc_bot c then Some (ctx_name_string c) else None)\<rparr>]
       \<and> (\<not> ctx_is_irc_bot c \<longrightarrow> ctx_database_user c = Some (user_id (last (rows w'))))"
  using assms
  by (auto simp: add_announcement_def emit_def Let_def split: if_splits option.splits)

lemma demo_add_rows:
  "rows (fst (Announcements_add demo_env demo_ctx 50 7 (Some 100) ''Hello'' (Reacted Tick)
                (demo_world []))) =
     [\<lparr>ann_id = 10, user_id = 42, announcement_content = ''Hello'', trigger_at = 100,
       triggered = False, playback_channel_id = 7, irc_name = None\<rparr>]"
  "rows (fst (Announcements_add demo_env demo_irc_ctx 50 7 (Some 100) ''Hello'' (Reacted Tick)
                (demo_world []))) =
     [\<lparr>ann_id = 10, user_id = 1, announcement_content = ''Hello'', trigger_at = 100,
       triggered = False, playback_channel_id = 7, irc_name = Some ''bob''\<rparr>]"
  by (simp_all add: command_defs demo_defs demo_ctx_def demo_irc_ctx_def demo_author_def newline_def)

section \<open>Properties\<close>





text \<open>
  C3 (as stated, false). \<open>add\<close> with a trigger time equal to the clock reading is not
  rejected: the check is \<open>trigger_time < now\<close>. On confirmation the row is stored and
  no validation message is sent.
\<close>

theorem add_at_now_is_scheduled:
  "rows (fst (Announcements_add demo_env demo_ctx 100 7 (Some 100) ''Hello'' (Reacted Tick)
                (demo_world []))) =
     [\<lparr>ann_id = 10, user_id = 42, announcement_content = ''Hello'', trigger_at = 100,
       triggered = False, playback_channel_id = 7, irc_name = None\<rparr>]
   \<and> snd (Announcements_add demo_env demo_ctx 100 7 (Some 100) ''Hello'' (Reacted Tick)
                (demo_world [])) = None
   \<and> Send Default_mentions ''That time is in the past.''
       \<notin> set (trace (fst (Announcements_add demo_env demo_ctx 100 7 (Some 100) ''Hello''
                (Reacted Tick) (demo_world []))))"
  by (simp add: command_defs demo_defs demo_ctx_def demo_author_def newline_def)

text \<open>
  C3 (amended). \<open>add\<close> with a trigger time strictly before the clock reading sends
  ``That time is in the past.'' and leaves the table as it was. With a trigger time at
  or after the clock reading the validation passes: the command goes on to the preview
  and, on confirmation, to \<open>add_announcement\<close>. When then the preview is rendered
  (the webhook lookup and \<open>generate_announcement\<close> return), the requester is the
  bridge or has a database user, and the commit goes through, confirmation with the
  tick stores exactly one new row, with that trigger time and \<open>triggered = False\<close>.
\<close>

theorem add_rejects_only_past:
  "(t < now \<longrightarrow>
      Announcements_add e c now channel (Some t) content oc w =
        (ctx_send ''That time is in the past.'' w, None)
      \<and> rows (ctx_send ''That time is in the past.'' w) = rows w)
   \<and> (now \<le> t \<longrightarrow>
      Announcements_add e c now channel (Some t) content oc w =
        (case preview_announcement e c content False True oc w of
           (w1, Inl err) \<Rightarrow> (w1, Some err)
         | (w1, Inr result) \<Rightarrow>
             if result = Some True then add_announcement e c channel t content w1
             else (w1, None)))
   \<and> (now \<le> t
        \<and> get_webhook e (Some (ctx_channel c)) = Inr wh
        \<and> generate e (preview_args e c content wh) = Inr k
        \<and> ((ctx_is_irc_bot c \<and> uid = 1 \<and> irc = Some (ctx_name_string c))
             \<or> (\<not> ctx_is_irc_bot c \<and> ctx_database_user c = Some uid \<and> irc = None))
        \<and> \<not> commit_fails e (rows w @
             [\<lparr>ann_id = next_id w, user_id = uid, announcement_content = content,
               trigger_at = t, triggered = False, playback_channel_id = channel,
               irc_name = irc\<rparr>]) \<longrightarrow>
      rows (fst (Announcements_add e c now channel (Some t) content (Reacted Tick) w)) =
        rows w @ [\<lparr>ann_id = next_id w, user_id = uid, announcement_content = content,
                   trigger_at = t, triggered = False, playback_channel_id = channel,
                   irc_name = irc\<rparr>]
      \<and> snd (Announcements_add e c now channel (Some t) content (Reacted Tick) w) = None)"
proof (intro conjI impI)
  assume "t < now"
  then show "Announcements_add e c now channel (Some t) content oc w =
        (ctx_send ''That time is in the past.'' w, None)"
    by (simp add: Announcements_add_def)
  show "rows (ctx_send ''That time is in the past.'' w) = rows w"
    by (simp add: ctx_send_def emit_def)
next
  assume "now \<le> t"
  then show "Announcements_add e c now channel (Some t) content oc w =
        (case preview_announcement e c content False True oc w of
           (w1, Inl err) \<Rightarrow> (w1, Some err)
         | (w1, Inr result) \<Rightarrow>
             if result = Some True then add_announcement e c channel t content w1
             else (w1, None))"
    by (simp add: Announcements_add_def)
next
  assume h: "now \<le> t
        \<and> get_webhook e (Some (ctx_channel c)) = Inr wh
        \<and> generate e (preview_args e c content wh) = Inr k
        \<and> ((ctx_is_irc_bot c \<and> uid = 1 \<and> irc = Some (ctx_name_string c))
             \<or> (\<not> ctx_is_irc_bot c \<and> ctx_database_user c = Some uid \<and> irc = None))
        \<and> \<not> commit_fails e (rows w @
             [\<lparr>ann_id = next_id w, user_id = uid, announcement_content = content,
               trigger_at = t, triggered = False, playback_channel_id = channel,
               irc_name = irc\<rparr>])"
  then have h1: "now \<le> t" and h2: "get_webhook e (Some (ctx_channel c)) = Inr wh"
    and h3: "generate e (preview_args e c content wh) = Inr k"
    and h4: "(ctx_is_irc_bot c \<and> uid = 1 \<and> irc = Some (ctx_name_string c))
             \<or> (\<not> ctx_is_irc_bot c \<and> ctx_database_user c = Some uid \<and> irc = None)"
    and h5: "\<not> commit_fails e (rows w @
             [\<lparr>ann_id = next_id w, user_id = uid, announcement_content = content,
               trigger_at = t, triggered = False, playback_channel_id = channel,
               irc_name = irc\<rparr>])"
    by blast+
  from add_confirmed_stores[OF h1 h2 h3 h4 h5]
  show "rows (fst (Announcements_add e c now channel (Some t) content (Reacted Tick) w)) =
        rows w @ [\<lparr>ann_id = next_id w, user_id = uid, announcement_content = content,
                   trigger_at = t, triggered = False, playback_channel_id = channel,
                   irc_name = irc\<rparr>]"
    and "snd (Announcements_add e c now channel (Some t) content (Reacted Tick) w) = None"
    by blast+
qed

theorem add_rejects_only_past_witness:
  "(5::int) < 10
   \<and> Announcements_add demo_env demo_ctx 10 7 (Some 5) ''Hello'' (Reacted Tick) (demo_world []) =
        (ctx_send ''That time is in the past.'' (demo_world []), None)
   \<and> rows (ctx_send ''That time is in the past.'' (demo_world [])) = rows (demo_world [])
   \<and> (100::int) \<le> 100
   \<and> get_webhook demo_env (Some (ctx_channel demo_ctx)) = Inr None
   \<and> generate demo_env (preview_args demo_env demo_ctx ''Hello'' None) = Inr 1
   \<and> \<not> ctx_is_irc_bot demo_ctx
   \<and> ctx_database_user demo_ctx = Some 42
   \<and> \<not> commit_fails demo_env (rows (demo_world []) @
             [\<lparr>ann_id = next_id (demo_world []), user_id = 42, announcement_content = ''Hello'',
               trigger_at = 100, triggered = False, playback_channel_id = 7,
               irc_name = None\<rparr>])
   \<and> rows (fst (Announcements_add demo_env demo_ctx 100 7 (Some 100) ''Hello'' (Reacted Tick)
                (demo_world []))) =
        [\<lparr>ann_id = 10, user_id = 42, announcement_content = ''Hello'', trigger_at = 100,
          triggered = False, playback_channel_id = 7, irc_name = None\<rparr>]
   \<and> snd (Announcements_add demo_env demo_ctx 100 7 (Some 100) ''Hello'' (Reacted Tick)
                (demo_world [])) = None"
proof -
  have a: "(5::int) < 10" and b: "(100::int) \<le> 100" by simp_all
  have h2: "get_webhook demo_env (Some (ctx_channel demo_ctx)) = Inr None"
    by (simp add: get_webhook_def demo_env_def)
  have h3: "generate demo_env (preview_args demo_env demo_ctx ''Hello'' None) = Inr 1"
    by (simp add: demo_env_def preview_args_def)
  have h4: "\<not> ctx_is_irc_bot demo_ctx" "ctx_database_user demo_ctx = Some 42"
    by (simp_all add: demo_ctx_def)
  have h5: "\<not> commit_fails demo_env (rows (demo_world []) @
             [\<lparr>ann_id = next_id (demo_world []), user_id = 42, announcement_content = ''Hello'',
               trigger_at = 100, triggered = False, playback_channel_id = 7,
               irc_name = None\<rparr>])"
    by (simp add: demo_env_def)
  have w: "rows (demo_world []) = []" "next_id (demo_world []) = 10"
    by (simp_all add: demo_world_def)
  from add_rejects_only_past[of 5 10 demo_env demo_ctx 7 "''Hello''" "Reacted Tick" "demo_world []"] a
  have p: "Announcements_add demo_env demo_ctx 10 7 (Some 5) ''Hello'' (Reacted Tick) (demo_world []) =
        (ctx_send ''That time is in the past.'' (demo_world []), None)"
    "rows (ctx_send ''That time is in the past.'' (demo_world [])) = rows (demo_world [])"
    by blast+
  from add_rejects_only_past[of 100 100 demo_env demo_ctx 7 "''Hello''" "Reacted Tick"
      "demo_world []" None 1 42 None] b h2 h3 h4 h5
  have q: "rows (fst (Announcements_add demo_env demo_ctx 100 7 (Some 100) ''Hello'' (Reacted Tick)
                (demo_world []))) =
        rows (demo_world []) @
        [\<lparr>ann_id = next_id (demo_world []), user_id = 42, announcement_content = ''Hello'',
          trigger_at = 100, triggered = False, playback_channel_id = 7, irc_name = None\<rparr>]"
    "snd (Announcements_add demo_env demo_ctx 100 7 (Some 100) ''Hello'' (Reacted Tick)
                (demo_world [])) = None"
    by blast+
  from a b h2 h3 h4 h5 p q show ?thesis unfolding w by simp
qed

text \<open>
  C4 (as stated, false). \<open>cancel\<close> of a triggered row deletes it and commits.
\<close>

theorem cancel_deletes_triggered_row:
  "Announcements_cancel demo_env 1 (demo_world [demo_row 1 ''old'' 5 True]) =
     (\<lparr>rows = [], next_id = 10, live = [], fresh = 0,
       trace = [Commit, Send Default_mentions ''Announcement Deleted'']\<rparr>, None)
   \<and> triggered (demo_row 1 ''old'' 5 True)"
  by (simp add: Announcements_cancel_def first_by_id_def delete_row_def emit_def demo_defs)

text \<open>
  C4 (amended). \<open>cancel\<close> does not look at \<open>triggered\<close>: whenever a row with the id is
  stored (and the commit goes through) the row is deleted, ``Announcement Deleted'' is
  sent, and no row with that id is left.
\<close>

theorem cancel_ignores_triggered:
  assumes "first_by_id i (rows w) = Some a"
      and "\<not> commit_fails e (delete_row i (rows w))"
  shows "Announcements_cancel e i w =
           (emit [Commit, Send Default_mentions ''Announcement Deleted'']
              (w\<lparr>rows := delete_row i (rows w)\<rparr>), None)
       \<and> first_by_id i (delete_row i (rows w)) = None"
proof -
  have "first_by_id i (delete_row i (rows w)) = None"
    by (simp add: first_by_id_def find_None_iff delete_row_def)
  with assms show ?thesis by (simp add: Announcements_cancel_def)
qed

theorem cancel_ignores_triggered_witness:
  "first_by_id 1 (rows (demo_world [demo_row 1 ''old'' 5 True])) = Some (demo_row 1 ''old'' 5 True)
   \<and> triggered (demo_row 1 ''old'' 5 True)
   \<and> \<not> commit_fails demo_env (delete_row 1 (rows (demo_world [demo_row 1 ''old'' 5 True])))
   \<and> Announcements_cancel demo_env 1 (demo_world [demo_row 1 ''old'' 5 True]) =
        (emit [Commit, Send Default_mentions ''Announcement Deleted'']
           ((demo_world [demo_row 1 ''old'' 5 True])\<lparr>rows := []\<rparr>), None)"
proof -
  have f: "first_by_id 1 (rows (demo_world [demo_row 1 ''old'' 5 True])) = Some (demo_row 1 ''old'' 5 True)"
    by (simp add: first_by_id_def demo_defs)
  have c: "\<not> commit_fails demo_env (delete_row 1 (rows (demo_world [demo_row 1 ''old'' 5 True])))"
    by (simp add: demo_env_def)
  have d: "delete_row 1 (rows (demo_world [demo_row 1 ''old'' 5 True])) = []"
    by (simp add: delete_row_def demo_defs)
  have t: "triggered (demo_row 1 ''old'' 5 True)" by (simp add: demo_row_def)
  from cancel_ignores_triggered[OF f c] f c t show ?thesis unfolding d by simp
qed

text \<open>
  C5 (the code at an id that is not stored). \<open>cancel\<close> tests the result of the query
  and sends ``Announcement does not exist''. \<open>check\<close> and \<open>mention\<close> do not test it:
  the attribute access on \<open>None\<close> raises AttributeError before anything is sent; the
  world is unchanged.
\<close>

theorem unknown_id_check_mention_raise:
  assumes "first_by_id i (rows w) = None"
  shows "Announcements_check e c i oc w = (w, Some AttributeError)
       \<and> Announcements_mention e i roles w = (w, Some AttributeError)
       \<and> Announcements_cancel e i w = (ctx_send ''Announcement does not exist'' w, None)"
  using assms
  by (simp add: Announcements_check_def Announcements_mention_def Announcements_cancel_def)

theorem unknown_id_check_mention_raise_witness:
  "first_by_id 9 (rows (demo_world [])) = None
   \<and> Announcements_check demo_env demo_ctx 9 Timed_out (demo_world []) =
        (demo_world [], Some AttributeError)
   \<and> Announcements_mention demo_env 9 [] (demo_world []) = (demo_world [], Some AttributeError)
   \<and> Announcements_cancel demo_env 9 (demo_world []) =
        (ctx_send ''Announcement does not exist'' (demo_world []), None)"
proof -
  have f: "first_by_id 9 (rows (demo_world [])) = None"
    by (simp add: first_by_id_def demo_world_def)
  from unknown_id_check_mention_raise[OF f] f show ?thesis by simp
qed

text \<open>
  C6 (as stated, false). A due row whose delivery identity cannot be resolved
  (\<open>get_webhook\<close> gives \<open>None\<close>) is not skipped: its flag is set and committed and it
  is delivered with no identity. A due row whose channel cannot be resolved is not
  skipped either: AttributeError leaves the cycle, and the due row after it is not
  processed.
\<close>

theorem unresolved_identity_not_skipped:
  "get_webhook demo_env (get_channel demo_env (playback_channel_id (demo_row 2 ''new'' 8 False))) =
     Inr None
   \<and> deliver_one demo_env (demo_row 2 ''new'' 8 False) (demo_world [demo_row 2 ''new'' 8 False]) =
       (\<lparr>rows = [demo_row 2 ''new'' 8 True], next_id = 10, live = [0], fresh = 1,
         trace = [Mark_triggered 2, Commit, Generate (demo_delivery ''new'')]\<rparr>, None)
   \<and> get_channel demo_env 8 = None
   \<and> scheduler_cycle demo_env 10 demo_unresolved = (demo_unresolved, Some AttributeError)"
  by (simp add: demo_defs scheduler_defs demo_unresolved_def)

text \<open>
  C6 (amended). A due row whose delivery identity cannot be resolved is processed
  like any other, with no identity: when its author is found, the commit goes through
  and the delivery returns, the flag is set and committed, the row is delivered with
  \<open>webhook = None\<close> and all mentions allowed, and the loop goes on with the rows that
  remain.
\<close>

theorem unresolved_identity_delivered_without_webhook:
  assumes "get_webhook e (get_channel e (playback_channel_id a)) = Inr None"
      and "author_info e a = Inr na"
      and "\<not> commit_fails e (set_triggered (ann_id a) (rows w))"
      and "generate e (delivery_args a (get_channel e (playback_channel_id a)) None na) = Inr k"
  shows "deliver_all e (a # as) w =
           deliver_all e as
             (w\<lparr>rows := set_triggered (ann_id a) (rows w),
                live := live w @ [fresh w ..< fresh w + k], fresh := fresh w + k,
                trace := trace w @ [Mark_triggered (ann_id a), Commit,
                  Generate (delivery_args a (get_channel e (playback_channel_id a)) None na)]\<rparr>)
       \<and> g_webhook (delivery_args a (get_channel e (playback_channel_id a)) None na) = None
       \<and> g_mentions (delivery_args a (get_channel e (playback_channel_id a)) None na) = All_mentions"
  using assms
  by (simp add: deliver_one_def generate_announcement_def emit_def delivery_args_def)

theorem unresolved_identity_delivered_without_webhook_witness:
  "get_webhook demo_env (get_channel demo_env (playback_channel_id (demo_row 2 ''new'' 8 False))) =
     Inr None
   \<and> author_info demo_env (demo_row 2 ''new'' 8 False) = Inr (''Apollo'', Some ''apollo.png'')
   \<and> \<not> commit_fails demo_env (set_triggered (ann_id (demo_row 2 ''new'' 8 False)) (rows demo_two_due))
   \<and> generate demo_env (demo_delivery ''new'') = Inr 1
   \<and> deliver_all demo_env [demo_row 2 ''new'' 8 False, demo_row 5 ''next'' 9 False] demo_two_due =
       (\<lparr>rows = [demo_row 2 ''new'' 8 True, demo_row 5 ''next'' 9 True], next_id = 10,
         live = [0, 1], fresh = 2,
         trace = [Mark_triggered 2, Commit, Generate (demo_delivery ''new''),
                  Mark_triggered 5, Commit, Generate (demo_delivery ''next'')]\<rparr>, None)"
proof -
  let ?a = "demo_row 2 ''new'' 8 False"
  have args: "delivery_args ?a (get_channel demo_env (playback_channel_id ?a)) None
                (''Apollo'', Some ''apollo.png'') = demo_delivery ''new''"
    by (simp add: demo_defs delivery_args_def)
  have h1: "get_webhook demo_env (get_channel demo_env (playback_channel_id ?a)) = Inr None"
    by (simp add: demo_defs get_webhook_def)
  have h2: "author_info demo_env ?a = Inr (''Apollo'', Some ''apollo.png'')"
    by (simp add: demo_defs author_info_def has_irc_name_def)
  have h3: "\<not> commit_fails demo_env (set_triggered (ann_id ?a) (rows demo_two_due))"
    by (simp add: demo_env_def)
  have h4: "generate demo_env (delivery_args ?a (get_channel demo_env (playback_channel_id ?a)) None
                (''Apollo'', Some ''apollo.png'')) = Inr 1"
    unfolding args by (simp add: demo_env_def demo_delivery_def)
  have rest: "deliver_all demo_env [demo_row 5 ''next'' 9 False]
          (demo_two_due\<lparr>rows := set_triggered (ann_id ?a) (rows demo_two_due),
                live := live demo_two_due @ [fresh demo_two_due ..< fresh demo_two_due + 1],
                fresh := fresh demo_two_due + 1,
                trace := trace demo_two_due @ [Mark_triggered (ann_id ?a), Commit,
                  Generate (demo_delivery ''new'')]\<rparr>) =
       (\<lparr>rows = [demo_row 2 ''new'' 8 True, demo_row 5 ''next'' 9 True], next_id = 10,
         live = [0, 1], fresh = 2,
         trace = [Mark_triggered 2, Commit, Generate (demo_delivery ''new''),
                  Mark_triggered 5, Commit, Generate (demo_delivery ''next'')]\<rparr>, None)"
    by (simp add: demo_defs scheduler_defs demo_two_due_def)
  from unresolved_identity_delivered_without_webhook[OF h1 h2 h3 h4, of "[demo_row 5 ''next'' 9 False]"]
  have "deliver_all demo_env [?a, demo_row 5 ''next'' 9 False] demo_two_due =
       (\<lparr>rows = [demo_row 2 ''new'' 8 True, demo_row 5 ''next'' 9 True], next_id = 10,
         live = [0, 1], fresh = 2,
         trace = [Mark_triggered 2, Commit, Generate (demo_delivery ''new''),
                  Mark_triggered 5, Commit, Generate (demo_delivery ''next'')]\<rparr>, None)"
    unfolding args rest by blast
  with h1 h2 h3 h4 show ?thesis unfolding args by simp
qed

text \<open>
  C7 (as stated, false). On the tick, \<open>interact\<close> deletes the prompt and then every
  preview message: none of them is left.
\<close>

theorem confirm_deletes_preview_messages:
  "interact demo_ctx [1, 2, 3] ''Hello'' False 4 Tick demo_chat =
     (\<lparr>rows = [], next_id = 10, live = [], fresh = 5,
       trace = [Delete 4, Delete 1, Delete 2, Delete 3]\<rparr>, True)"
  by (simp add: interact_def delete_message_def demo_chat_def)

text \<open>
  C7 (amended). On the tick, \<open>interact\<close> deletes the prompt, sends the hint when
  \<open>preview\<close> is set, deletes every preview message and returns \<open>True\<close>: the messages
  left are those that were neither the prompt nor a preview message, and the table is
  as it was.
\<close>

theorem confirm_deletes_prompt_and_previews:
  "snd (interact c messages content preview msg Tick w) = True
   \<and> live (fst (interact c messages content preview msg Tick w)) =
       filter (\<lambda>m. m \<notin> set messages) (removeAll msg (live w))
   \<and> rows (fst (interact c messages content preview msg Tick w)) = rows w
   \<and> trace (fst (interact c messages content preview msg Tick w)) =
       trace w @ [Delete msg] @
       (if preview
        then [Send Default_mentions
                (''Preview complete. Send this message with'' @ newline @
                 ''`!announcement add #announcements 10s '' @ newline @ content @ ''`'')]
        else []) @
       map Delete messages"
  by (simp add: interact_def Let_def delete_messages_live delete_messages_rows
      delete_messages_trace delete_message_fields ctx_send_def emit_def)



text \<open>
  C10. On a stored announcement, when the commit goes through, \<open>mention\<close> commits and
  returns without an exception; the stored content is then exactly the old content,
  one newline character, and the mentions of the roles joined by single spaces. With
  no roles the joined text is empty: the stored content is the old content followed by
  the newline, and the commit is made all the same.
\<close>

theorem mention_appends_newline_and_mentions:
  assumes "first_by_id i (rows w) = Some a"
      and "\<not> commit_fails e (set_content i
             (announcement_content a @ [CHR 0x0A] @ join_str '' '' (map role_mention roles)) (rows w))"
  shows "snd (Announcements_mention e i roles w) = None
       \<and> first_by_id i (rows (fst (Announcements_mention e i roles w))) =
           Some (a\<lparr>announcement_content :=
                     announcement_content a @ [CHR 0x0A] @ join_str '' '' (map role_mention roles)\<rparr>)
       \<and> rows (fst (Announcements_mention e i roles w)) =
           set_content i (announcement_content a @ [CHR 0x0A] @
                          join_str '' '' (map role_mention roles)) (rows w)
       \<and> new_events w (fst (Announcements_mention e i roles w)) =
           [Commit,
            Send Default_mentions
              (''Pings added for '' @ join_str '', '' (map role_name roles) @
               '' to announcement '' @ str_nat i @ ''.'')]
       \<and> (roles = [] \<longrightarrow>
            first_by_id i (rows (fst (Announcements_mention e i roles w))) =
              Some (a\<lparr>announcement_content := announcement_content a @ [CHR 0x0A]\<rparr>))"
proof -
  let ?c = "announcement_content a @ [CHR 0x0A] @ join_str '' '' (map role_mention roles)"
  from mention_result[OF assms(1), of e roles] assms(2)
  have res: "Announcements_mention e i roles w =
          (emit [Commit,
                 Send Default_mentions
                   (''Pings added for '' @ join_str '', '' (map role_name roles) @
                    '' to announcement '' @ str_nat i @ ''.'')]
             (w\<lparr>rows := set_content i ?c (rows w)\<rparr>), None)"
    by (simp add: newline_def)
  have 1: "snd (Announcements_mention e i roles w) = None" by (simp add: res)
  have 3: "rows (fst (Announcements_mention e i roles w)) = set_content i ?c (rows w)"
    by (simp add: res emit_def)
  have 2: "first_by_id i (rows (fst (Announcements_mention e i roles w))) =
           Some (a\<lparr>announcement_content := ?c\<rparr>)"
    unfolding 3 by (simp add: first_by_id_set_content assms(1))
  have 4: "new_events w (fst (Announcements_mention e i roles w)) =
           [Commit,
            Send Default_mentions
              (''Pings added for '' @ join_str '', '' (map role_name roles) @
               '' to announcement '' @ str_nat i @ ''.'')]"
    by (simp add: res emit_def new_events_def)
  have 5: "roles = [] \<longrightarrow>
            first_by_id i (rows (fst (Announcements_mention e i roles w))) =
              Some (a\<lparr>announcement_content := announcement_content a @ [CHR 0x0A]\<rparr>)"
  proof
    assume "roles = []"
    with 2 show "first_by_id i (rows (fst (Announcements_mention e i roles w))) =
              Some (a\<lparr>announcement_content := announcement_content a @ [CHR 0x0A]\<rparr>)"
      by simp
  qed
  from 1 2 3 4 5 show ?thesis by blast
qed

theorem mention_appends_newline_and_mentions_witness:
  "first_by_id 2 (rows demo_pending) = Some (demo_row 2 ''new'' 8 False)
   \<and> \<not> commit_fails demo_env (set_content 2
        (announcement_content (demo_row 2 ''new'' 8 False) @ [CHR 0x0A] @
         join_str '' '' (map role_mention demo_roles)) (rows demo_pending))
   \<and> \<not> commit_fails demo_env (set_content 2
        (announcement_content (demo_row 2 ''new'' 8 False) @ [CHR 0x0A] @
         join_str '' '' (map role_mention ([]::role list))) (rows demo_pending))
   \<and> snd (Announcements_mention demo_env 2 demo_roles demo_pending) = None
   \<and> first_by_id 2 (rows (fst (Announcements_mention demo_env 2 demo_roles demo_pending))) =
       Some (demo_row 2 (''new'' @ [CHR 0x0A] @ ''<@&11> <@&12>'') 8 False)
   \<and> snd (Announcements_mention demo_env 2 [] demo_pending) = None
   \<and> first_by_id 2 (rows (fst (Announcements_mention demo_env 2 [] demo_pending))) =
       Some (demo_row 2 (''new'' @ [CHR 0x0A]) 8 False)
   \<and> Commit \<in> set (new_events demo_pending (fst (Announcements_mention demo_env 2 [] demo_pending)))"
proof -
  have f: "first_by_id 2 (rows demo_pending) = Some (demo_row 2 ''new'' 8 False)"
    by (simp add: first_by_id_def demo_pending_def demo_defs)
  have c1: "\<not> commit_fails demo_env (set_content 2
        (announcement_content (demo_row 2 ''new'' 8 False) @ [CHR 0x0A] @
         join_str '' '' (map role_mention demo_roles)) (rows demo_pending))"
    and c2: "\<not> commit_fails demo_env (set_content 2
        (announcement_content (demo_row 2 ''new'' 8 False) @ [CHR 0x0A] @
         join_str '' '' (map role_mention ([]::role list))) (rows demo_pending))"
    by (simp_all add: demo_env_def)
  have r1: "(demo_row 2 ''new'' 8 False)\<lparr>announcement_content :=
              announcement_content (demo_row 2 ''new'' 8 False) @ [CHR 0x0A] @
              join_str '' '' (map role_mention demo_roles)\<rparr> =
            demo_row 2 (''new'' @ [CHR 0x0A] @ ''<@&11> <@&12>'') 8 False"
    and r2: "(demo_row 2 ''new'' 8 False)\<lparr>announcement_content :=
              announcement_content (demo_row 2 ''new'' 8 False) @ [CHR 0x0A]\<rparr> =
            demo_row 2 (''new'' @ [CHR 0x0A]) 8 False"
    by (simp_all add: demo_row_def demo_roles_def)
  from mention_appends_newline_and_mentions[OF f c1]
  have a: "snd (Announcements_mention demo_env 2 demo_roles demo_pending) = None"
    "first_by_id 2 (rows (fst (Announcements_mention demo_env 2 demo_roles demo_pending))) =
       Some (demo_row 2 (''new'' @ [CHR 0x0A] @ ''<@&11> <@&12>'') 8 False)"
    unfolding r1 by blast+
  note m = mention_appends_newline_and_mentions[OF f c2]
  from m have b: "snd (Announcements_mention demo_env 2 [] demo_pending) = None"
    "first_by_id 2 (rows (fst (Announcements_mention demo_env 2 [] demo_pending))) =
       Some (demo_row 2 (''new'' @ [CHR 0x0A]) 8 False)"
    unfolding r2 by blast+
  from m have b3: "new_events demo_pending (fst (Announcements_mention demo_env 2 [] demo_pending)) =
           [Commit,
            Send Default_mentions
              (''Pings added for '' @ join_str '', '' (map role_name ([]::role list)) @
               '' to announcement '' @ str_nat 2 @ ''.'')]"
    by blast
  from b3 have "Commit \<in> set (new_events demo_pending (fst (Announcements_mention demo_env 2 [] demo_pending)))"
    by simp
  with f c1 c2 a b show ?thesis by blast
qed

text \<open>
  C9. Every row that \<open>add\<close> stores is one new row at the end of the table, not
  triggered, and carries the requester in exactly one way: \<open>irc_name\<close> is set exactly
  when the requester is the bridge. For the bridge it is the display name, and
  \<open>user_id\<close> is the fixed value 1, whoever the requester is; otherwise \<open>irc_name\<close> is
  \<open>None\<close> and \<open>user_id\<close> is the id of the requester's database user.
\<close>

theorem add_sets_exactly_one_author_field:
  assumes "Announcements_add e c now channel tt content oc w = (w', r)"
      and "rows w' \<noteq> rows w"
  shows "\<exists>a. rows w' = rows w @ [a]
            \<and> (irc_name a \<noteq> None) = ctx_is_irc_bot c
            \<and> (ctx_is_irc_bot c \<longrightarrow> irc_name a = Some (ctx_name_string c) \<and> user_id a = 1)
            \<and> (\<not> ctx_is_irc_bot c \<longrightarrow>
                  irc_name a = None \<and> ctx_database_user c = Some (user_id a))
            \<and> triggered a = False \<and> ann_id a = next_id w"
proof (cases tt)
  case None
  with assms show ?thesis by (auto simp: Announcements_add_def ctx_send_def emit_def)
next
  case (Some t)
  show ?thesis
  proof (cases "t < now")
    case True
    with assms Some show ?thesis by (auto simp: Announcements_add_def ctx_send_def emit_def)
  next
    case False
    obtain w1 x where p: "preview_announcement e c content False True oc w = (w1, x)"
      by (cases "preview_announcement e c content False True oc w") auto
    from preview_announcement_rows[of e c content False True oc w] p
    have r1: "rows w1 = rows w" "next_id w1 = next_id w" by simp_all
    have stored: "add_announcement e c channel t content w1 = (w', r)"
    proof (cases x)
      case (Inl err)
      with assms Some False p r1 show ?thesis by (auto simp: Announcements_add_def)
    next
      case (Inr result)
      with assms Some False p r1 show ?thesis
        by (cases "result = Some True") (auto simp: Announcements_add_def)
    qed
    from assms(2) r1 have ne: "rows w' \<noteq> rows w1" by simp
    from add_announcement_row[OF stored ne]
    have row: "rows w' = rows w @
           [\<lparr>ann_id = next_id w,
             user_id = (if ctx_is_irc_bot c then 1 else user_id (last (rows w'))),
             announcement_content = content, trigger_at = t, triggered = False,
             playback_channel_id = channel,
             irc_name = (if ctx_is_irc_bot c then Some (ctx_name_string c) else None)\<rparr>]"
      and db: "\<not> ctx_is_irc_bot c \<longrightarrow> ctx_database_user c = Some (user_id (last (rows w')))"
      unfolding r1 by blast+
    let ?a = "\<lparr>ann_id = next_id w,
             user_id = (if ctx_is_irc_bot c then 1 else user_id (last (rows w'))),
             announcement_content = content, trigger_at = t, triggered = False,
             playback_channel_id = channel,
             irc_name = (if ctx_is_irc_bot c then Some (ctx_name_string c) else None)\<rparr>"
    have "rows w' = rows w @ [?a]" by (rule row)
    moreover have "(irc_name ?a \<noteq> None) = ctx_is_irc_bot c" by simp
    moreover have "ctx_is_irc_bot c \<longrightarrow> irc_name ?a = Some (ctx_name_string c) \<and> user_id ?a = 1"
      by simp
    moreover have "\<not> ctx_is_irc_bot c \<longrightarrow>
                  irc_name ?a = None \<and> ctx_database_user c = Some (user_id ?a)"
      using db by simp
    moreover have "triggered ?a = False \<and> ann_id ?a = next_id w" by simp
    ultimately show ?thesis by blast
  qed
qed

theorem add_sets_exactly_one_author_field_witness:
  "rows (fst (Announcements_add demo_env demo_ctx 50 7 (Some 100) ''Hello'' (Reacted Tick)
                (demo_world []))) \<noteq> rows (demo_world [])
   \<and> rows (fst (Announcements_add demo_env demo_ctx 50 7 (Some 100) ''Hello'' (Reacted Tick)
                (demo_world []))) =
       [\<lparr>ann_id = 10, user_id = 42, announcement_content = ''Hello'', trigger_at = 100,
         triggered = False, playback_channel_id = 7, irc_name = None\<rparr>]
   \<and> \<not> ctx_is_irc_bot demo_ctx
   \<and> ctx_database_user demo_ctx = Some 42
   \<and> rows (fst (Announcements_add demo_env demo_irc_ctx 50 7 (Some 100) ''Hello'' (Reacted Tick)
                (demo_world []))) \<noteq> rows (demo_world [])
   \<and> rows (fst (Announcements_add demo_env demo_irc_ctx 50 7 (Some 100) ''Hello'' (Reacted Tick)
                (demo_world []))) =
       [\<lparr>ann_id = 10, user_id = 1, announcement_content = ''Hello'', trigger_at = 100,
         triggered = False, playback_channel_id = 7, irc_name = Some ''bob''\<rparr>]
   \<and> ctx_is_irc_bot demo_irc_ctx
   \<and> ctx_name_string demo_irc_ctx = ''bob''"
proof -
  let ?A = "Announcements_add demo_env demo_ctx 50 7 (Some 100) ''Hello'' (Reacted Tick) (demo_world [])"
  let ?B = "Announcements_add demo_env demo_irc_ctx 50 7 (Some 100) ''Hello'' (Reacted Tick) (demo_world [])"
  have e: "rows (demo_world []) = []" by (simp add: demo_world_def)
  have na: "rows (fst ?A) \<noteq> rows (demo_world [])" and nb: "rows (fst ?B) \<noteq> rows (demo_world [])"
    unfolding e demo_add_rows by simp_all
  have pa: "?A = (fst ?A, snd ?A)" and pb: "?B = (fst ?B, snd ?B)" by simp_all
  from add_sets_exactly_one_author_field[OF pa na] obtain a where
    a: "rows (fst ?A) = rows (demo_world []) @ [a]"
       "\<not> ctx_is_irc_bot demo_ctx \<longrightarrow> irc_name a = None \<and> ctx_database_user demo_ctx = Some (user_id a)"
    by blast
  from add_sets_exactly_one_author_field[OF pb nb] obtain b where
    b: "rows (fst ?B) = rows (demo_world []) @ [b]"
       "ctx_is_irc_bot demo_irc_ctx \<longrightarrow> irc_name b = Some (ctx_name_string demo_irc_ctx) \<and> user_id b = 1"
    by blast
  have ca: "\<not> ctx_is_irc_bot demo_ctx" and cb: "ctx_is_irc_bot demo_irc_ctx"
    and nm: "ctx_name_string demo_irc_ctx = ''bob''"
    by (simp_all add: demo_ctx_def demo_irc_ctx_def)
  from a ca have "ctx_database_user demo_ctx = Some (user_id a)" by blast
  moreover from a(1) have "a = \<lparr>ann_id = 10, user_id = 42, announcement_content = ''Hello'',
      trigger_at = 100, triggered = False, playback_channel_id = 7, irc_name = None\<rparr>"
    unfolding e demo_add_rows by simp
  ultimately have da: "ctx_database_user demo_ctx = Some 42" by simp
  from na nb ca cb nm da show ?thesis using demo_add_rows by simp
qed

end
